theory Spec2Isabelle
  imports Main "HOL-Library.Sublist"
begin

section \<open>Game wishlist bot: classifier, wishlist store, catalog cache, completion quorum\<close>

text \<open>
  The development embeds the bot of \<^verbatim>\<open>src/unnamed/part_000\<close>. (\<^verbatim>\<open>src/index.ts\<close> is
  another revision of the same program; its \<^verbatim>\<open>messageReactionAdd\<close> handler, with the
  dual removal, is the same text.) The module variables \<^verbatim>\<open>singleList\<close>,
  \<^verbatim>\<open>multiList\<close> and \<^verbatim>\<open>steamCache\<close> are a record that every handler takes and
  returns. What the outside world answers (the Steam store, the Discord gateway) is an
  argument of the handler, one constructor per way the awaited call can end; what the
  handler asks of the outside world is returned as a log of effects.
\<close>

subsection \<open>Strings\<close>

text \<open>
  A JavaScript string is modelled as a \<^typ>\<open>string\<close> whose characters are the code units
  below 256 (ASCII and Latin-1). On these, \<^verbatim>\<open>toLowerCase\<close> maps \<open>A\<close>..\<open>Z\<close> and the
  upper-case letters \<open>0xC0\<close>..\<open>0xDE\<close> (without the multiplication sign \<open>0xD7\<close>) to the
  letter 32 places further and leaves every other character alone; white space is tab,
  line feed, vertical tab, form feed, carriage return, space and the no-break space.
\<close>

definition upper_letters :: string where
  "upper_letters = ''ABCDEFGHIJKLMNOPQRSTUVWXYZ'' @
     [CHR 0xC0, CHR 0xC1, CHR 0xC2, CHR 0xC3, CHR 0xC4, CHR 0xC5, CHR 0xC6, CHR 0xC7,
      CHR 0xC8, CHR 0xC9, CHR 0xCA, CHR 0xCB, CHR 0xCC, CHR 0xCD, CHR 0xCE, CHR 0xCF,
      CHR 0xD0, CHR 0xD1, CHR 0xD2, CHR 0xD3, CHR 0xD4, CHR 0xD5, CHR 0xD6,
      CHR 0xD8, CHR 0xD9, CHR 0xDA, CHR 0xDB, CHR 0xDC, CHR 0xDD, CHR 0xDE]"

definition lower_letters :: string where
  "lower_letters = ''abcdefghijklmnopqrstuvwxyz'' @
     [CHR 0xE0, CHR 0xE1, CHR 0xE2, CHR 0xE3, CHR 0xE4, CHR 0xE5, CHR 0xE6, CHR 0xE7,
      CHR 0xE8, CHR 0xE9, CHR 0xEA, CHR 0xEB, CHR 0xEC, CHR 0xED, CHR 0xEE, CHR 0xEF,
      CHR 0xF0, CHR 0xF1, CHR 0xF2, CHR 0xF3, CHR 0xF4, CHR 0xF5, CHR 0xF6,
      CHR 0xF8, CHR 0xF9, CHR 0xFA, CHR 0xFB, CHR 0xFC, CHR 0xFD, CHR 0xFE]"

definition lower_char :: "char \<Rightarrow> char" where
  "lower_char c = (case map_of (zip upper_letters lower_letters) c of Some d \<Rightarrow> d | None \<Rightarrow> c)"

text \<open>\<^verbatim>\<open>s.toLowerCase()\<close>\<close>

definition toLowerCase :: "string \<Rightarrow> string" where
  "toLowerCase s = map lower_char s"

text \<open>\<^verbatim>\<open>s.includes(sub)\<close>: \<open>sub\<close> occurs in \<open>s\<close> as a contiguous run.\<close>

fun str_includes :: "string \<Rightarrow> string \<Rightarrow> bool" where
  "str_includes [] sub = (sub = [])"
| "str_includes (c # cs) sub = (prefix sub (c # cs) \<or> str_includes cs sub)"

subsection \<open>Classifier\<close>

datatype game_type = Single | Multi | Both | Unknown

text \<open>
  \<^verbatim>\<open>
  function getGameType(categories: string[]): 'single' | 'multi' | 'both' | 'unknown' {
    const lower = categories.map(c => c.toLowerCase());
    const isSingle = lower.includes('single-player');
    const isMulti = lower.some(c => c.includes('multiplayer') || c.includes('co-op')
                                    || c.includes('cross-platform'));
    if (isMulti) return 'multi';
    if (isSingle) return 'single';
    return 'unknown';
  }
  \<close>
\<close>

definition getGameType :: "string list \<Rightarrow> game_type" where
  "getGameType categories =
     (let lower = map toLowerCase categories;
          isSingle = (''single-player'' \<in> set lower);
          isMulti = list_ex (\<lambda>c. str_includes c ''multiplayer'' \<or> str_includes c ''co-op''
                                 \<or> str_includes c ''cross-platform'') lower
      in if isMulti then Multi else if isSingle then Single else Unknown)"

subsection \<open>More string operations\<close>

definition is_space :: "char \<Rightarrow> bool" where
  "is_space c \<longleftrightarrow> c \<in> set [CHR 0x09, CHR 0x0A, CHR 0x0B, CHR 0x0C, CHR 0x0D, CHR '' '', CHR 0xA0]"

text \<open>\<^verbatim>\<open>s.trim()\<close>\<close>

definition trim :: "string \<Rightarrow> string" where
  "trim s = rev (dropWhile is_space (rev (dropWhile is_space s)))"

definition digit_chars :: string where
  "digit_chars = ''0123456789''"

text \<open>The regular expression class \<^verbatim>\<open>\d\<close> (without the unicode flag): \<open>0\<close>..\<open>9\<close>.\<close>

definition is_digit :: "char \<Rightarrow> bool" where
  "is_digit c \<longleftrightarrow> c \<in> set digit_chars"

definition digit_value :: "char \<Rightarrow> int" where
  "digit_value c = (case map_of (zip digit_chars [0, 1, 2, 3, 4, 5, 6, 7, 8, 9]) c of
                      Some v \<Rightarrow> v | None \<Rightarrow> 0)"

text \<open>
  \<^verbatim>\<open>parseInt(ds)\<close> on a string of decimal digits, which is all the handler passes to it
  (the capture group of \<^verbatim>\<open>(\d+)\<close>). Identifiers are integers; a JavaScript number is
  exact up to \<open>2^53\<close>, beyond which \<^verbatim>\<open>parseInt\<close> rounds and this model does not.
\<close>

definition parseInt :: "string \<Rightarrow> int" where
  "parseInt ds = foldl (\<lambda>n c. 10 * n + digit_value c) 0 ds"

text \<open>The decimal text of an integer, as a template literal \<^verbatim>\<open>`${item.id}`\<close> prints it.\<close>

fun nat_to_string :: "nat \<Rightarrow> string" where
  "nat_to_string n =
     (if n < 10 then [digit_chars ! n]
      else nat_to_string (n div 10) @ [digit_chars ! (n mod 10)])"

definition int_to_string :: "int \<Rightarrow> string" where
  "int_to_string i = (if i < 0 then ''-'' @ nat_to_string (nat (- i)) else nat_to_string (nat i))"

text \<open>\<^verbatim>\<open>xs.join(', ')\<close>\<close>

fun join_comma :: "string list \<Rightarrow> string" where
  "join_comma [] = []"
| "join_comma [x] = x"
| "join_comma (x # y # ys) = x @ '', '' @ join_comma (y # ys)"

text \<open>\<^verbatim>\<open>s || d\<close> on a string that may be missing: the empty string is falsy too.\<close>

definition or_default :: "string option \<Rightarrow> string \<Rightarrow> string" where
  "or_default v d = (case v of None \<Rightarrow> d | Some s \<Rightarrow> if s = [] then d else s)"

subsection \<open>Data model and state\<close>

text \<open>\<^verbatim>\<open>type WishlistEntry = { name: string; appid: number; suggester: string }\<close>\<close>

record WishlistEntry =
  name :: string
  appid :: int
  suggester :: string

text \<open>An element of a search result: \<^verbatim>\<open>{ name: string; appid: number; url: string }\<close>.\<close>

record search_result =
  sr_name :: string
  sr_appid :: int
  sr_url :: string

text \<open>
  The module variables. \<^verbatim>\<open>steamCache\<close> is a plain object used as a dictionary from the
  cache key to an array of results.
\<close>

record bot_state =
  singleList :: "WishlistEntry list"
  multiList :: "WishlistEntry list"
  steamCache :: "string \<rightharpoonup> search_result list"

text \<open>What \<^verbatim>\<open>fetchSteamDetails\<close> returns when it does not return \<^verbatim>\<open>null\<close>.\<close>

record details =
  d_name :: string
  d_description :: string
  d_price :: string
  d_headerImage :: string
  d_url :: string
  d_categories :: "string list"
  d_genres :: "string list"

text \<open>The embed that \<^verbatim>\<open>postGameEmbed\<close> builds.\<close>

record embed =
  e_title :: string
  e_url :: string
  e_description :: string
  e_fields :: "(string \<times> string \<times> bool) list"
  e_image :: string

text \<open>The texts of the replies of the \<^verbatim>\<open>wishlist\<close> command, in the order of the source.\<close>

datatype reply_content =
    WrongChannel
  | GameNotFound
  | NoDetails
  | UnknownGameType
  | AlreadyInWishlist
  | ThumbsUp

text \<open>
  The log of a handler: the requests to the Steam store, the writes of the state files,
  the messages to the chat platform, and the look-up and creation of the voice channel.
  \<open>Reply c e\<close> is \<^verbatim>\<open>interaction.reply({ content: c, ephemeral: e })\<close>; \<open>Respond cs\<close> is
  \<^verbatim>\<open>interaction.respond(cs)\<close> with its \<^verbatim>\<open>{ name, value }\<close> pairs.
  The two \<^verbatim>\<open>writeFileSync\<close> helpers are taken to succeed.
\<close>

datatype effect =
    SteamSearchRequest string
  | SteamDetailsRequest int
  | SaveCache
  | SaveLists "WishlistEntry list" "WishlistEntry list"
  | Reply reply_content bool
  | Respond "(string \<times> string) list"
  | Send "string option" embed
  | VoiceChannelLookup "string option"
  | CreateVoiceChannel string
  | DeleteMessage

text \<open>
  What a handler leaves behind: the module variables, the log, and whether the handler
  ran to its end (\<open>completed\<close>) or stopped at an awaited call that rejected and that the
  source does not catch.
\<close>

record outcome =
  state :: bot_state
  effects :: "effect list"
  completed :: bool

subsection \<open>Wishlist store\<close>

text \<open>\<^verbatim>\<open>list.some(g => g.appid === appid)\<close>\<close>

definition contains :: "WishlistEntry list \<Rightarrow> int \<Rightarrow> bool" where
  "contains list i = list_ex (\<lambda>g. appid g = i) list"

text \<open>
  The dual removal of the reaction handler (the same two lines in both source files):
  \<^verbatim>\<open>
  singleList = singleList.filter(g => g.appid !== appid);
  multiList = multiList.filter(g => g.appid !== appid);
  \<close>
\<close>

definition removeByCatalogId :: "int \<Rightarrow> bot_state \<Rightarrow> bot_state" where
  "removeByCatalogId i s =
     s\<lparr>singleList := filter (\<lambda>g. appid g \<noteq> i) (singleList s),
       multiList := filter (\<lambda>g. appid g \<noteq> i) (multiList s)\<rparr>"

subsection \<open>Catalog resolver\<close>

text \<open>
  The answer of the store to the search request, as far as \<^verbatim>\<open>searchSteamGame\<close> looks at
  it. An element of \<^verbatim>\<open>data.items\<close> is \<open>Item name id\<close>, or \<open>ItemNullish\<close> for
  \<^verbatim>\<open>null\<close>, on which \<^verbatim>\<open>item.name\<close> throws. The body is not JSON (\<^verbatim>\<open>res.json()\<close>
  rejects), or \<^verbatim>\<open>null\<close> (\<^verbatim>\<open>data.items\<close> throws), or a value whose \<^verbatim>\<open>items\<close> is an
  array (\<open>Some\<close>) or anything else (\<open>None\<close>).
\<close>

datatype raw_item = ItemNullish | Item string int

datatype search_body = BodyNotJson | BodyNullish | BodyData "raw_item list option"

text \<open>
  How the awaited \<^verbatim>\<open>fetch\<close> ends: aborted by the 1500 ms timer, rejected by the
  transport, or resolved with a response whose \<^verbatim>\<open>ok\<close> flag says whether the status is 2xx.
\<close>

datatype search_fetch = TimedOut | TransportFailure | Response bool search_body

text \<open>The callback of \<^verbatim>\<open>map\<close>; \<open>None\<close> where it throws.\<close>

definition to_result :: "raw_item \<Rightarrow> search_result option" where
  "to_result item = (case item of
       Item n i \<Rightarrow> Some \<lparr>sr_name = n, sr_appid = i,
                    sr_url = ''https://store.steampowered.com/app/'' @ int_to_string i\<rparr>
     | ItemNullish \<Rightarrow> None)"

text \<open>
  \<^verbatim>\<open>
  async function searchSteamGame(query) {
    const cleaned = query.toLowerCase().trim();
    const cacheKey = `search:${cleaned}`;
    if (steamCache[cacheKey]) return steamCache[cacheKey];
    try {
      const controller = new AbortController();
      const timeout = setTimeout(() => controller.abort(), 1500);
      const res = await fetch(`.../api/storesearch/?term=${encodeURIComponent(cleaned)}&cc=us&l=en`,
                              { signal: controller.signal });
      clearTimeout(timeout);
      if (!res.ok) throw new Error(`Steam API ${res.status}`);
      const data = await res.json();
      const items = Array.isArray(data.items) ? data.items : [];
      const results = items.slice(0, 10).map((item: any) => ({ name: item.name, appid: item.id,
                         url: `https://store.steampowered.com/app/${item.id}` }));
      steamCache[cacheKey] = results;
      saveCache();
      return results;
    } catch (err) {
      console.warn('Steam API search failed:', err);
      return [];
    }
  }
  \<close>
  The first argument is the store: the answer to the request for a search term. The
  request is logged by its term. A cached value is an array, and every array is truthy,
  the empty one too, so the test \<^verbatim>\<open>if (steamCache[cacheKey])\<close> asks whether the key is
  there. The result is the returned array, the state and the log.
\<close>

definition cacheKey_of :: "string \<Rightarrow> string" where
  "cacheKey_of query = ''search:'' @ trim (toLowerCase query)"

definition searchSteamGame ::
  "(string \<Rightarrow> search_fetch) \<Rightarrow> bot_state \<Rightarrow> string \<Rightarrow> search_result list \<times> bot_state \<times> effect list"
where
  "searchSteamGame store s query =
     (let cleaned = trim (toLowerCase query);
          cacheKey = ''search:'' @ cleaned
      in case steamCache s cacheKey of
           Some cached \<Rightarrow> (cached, s, [])
         | None \<Rightarrow>
             (let failed = ([], s, [SteamSearchRequest cleaned])
              in case store cleaned of
                   TimedOut \<Rightarrow> failed
                 | TransportFailure \<Rightarrow> failed
                 | Response ok body \<Rightarrow>
                     if \<not> ok then failed
                     else (case body of
                             BodyNotJson \<Rightarrow> failed
                           | BodyNullish \<Rightarrow> failed
                           | BodyData data_items \<Rightarrow>
                               (let items = (case data_items of Some xs \<Rightarrow> xs | None \<Rightarrow> [])
                                in case those (map to_result (take 10 items)) of
                                     None \<Rightarrow> failed
                                   | Some results \<Rightarrow>
                                       (results,
                                        s\<lparr>steamCache := (steamCache s)(cacheKey \<mapsto> results)\<rparr>,
                                        [SteamSearchRequest cleaned, SaveCache])))))"

text \<open>
  The answer of the store to the details request. \<open>DetailsTransportError\<close>: the
  \<^verbatim>\<open>fetch\<close> rejects. \<open>DetailsMalformed\<close>: anything else on which the \<^verbatim>\<open>try\<close> block
  throws (a body that is not JSON or is \<^verbatim>\<open>null\<close>, categories or genres that are not
  arrays of objects). \<open>DetailsNoData\<close>: \<^verbatim>\<open>json[appid]?.data\<close> is missing or falsy.
  \<open>DetailsData\<close>: the fields of \<^verbatim>\<open>data\<close> that the function reads; a missing one is
  \<open>None\<close>. No status check is made on this response.
\<close>

record raw_game =
  rg_name :: string
  rg_short_description :: "string option"
  rg_is_free :: bool
  rg_final_formatted :: "string option"
  rg_header_image :: string
  rg_categories :: "string list option"
  rg_genres :: "string list option"

datatype details_fetch =
    DetailsTransportError
  | DetailsMalformed
  | DetailsNoData
  | DetailsData raw_game

text \<open>
  \<^verbatim>\<open>
  async function fetchSteamDetails(appid: number) {
    try {
      const res = await fetch(`.../api/appdetails?appids=${appid}&cc=us&l=en`);
      const json = await res.json();
      const game = json[appid]?.data;
      if (!game) return null;
      return {
        name: game.name,
        description: game.short_description || 'No description provided.',
        price: game.is_free ? 'Free' : (game.price_overview?.final_formatted || 'Unknown'),
        headerImage: game.header_image,
        url: `https://store.steampowered.com/app/${appid}`,
        categories: game.categories?.map((c: any) => c.description) || [],
        genres: game.genres?.map((g: any) => g.description) || []
      };
    } catch { return null; }
  }
  \<close>
  The function touches no module variable; its log is the one request.
\<close>

definition fetchSteamDetails :: "(int \<Rightarrow> details_fetch) \<Rightarrow> int \<Rightarrow> details option" where
  "fetchSteamDetails store i =
     (case store i of
        DetailsTransportError \<Rightarrow> None
      | DetailsMalformed \<Rightarrow> None
      | DetailsNoData \<Rightarrow> None
      | DetailsData game \<Rightarrow>
          Some \<lparr>d_name = rg_name game,
                d_description = or_default (rg_short_description game) ''No description provided.'',
                d_price = (if rg_is_free game then ''Free''
                           else or_default (rg_final_formatted game) ''Unknown''),
                d_headerImage = rg_header_image game,
                d_url = ''https://store.steampowered.com/app/'' @ int_to_string i,
                d_categories = (case rg_categories game of Some cs \<Rightarrow> cs | None \<Rightarrow> []),
                d_genres = (case rg_genres game of Some gs \<Rightarrow> gs | None \<Rightarrow> [])\<rparr>)"

subsection \<open>Submission handler\<close>

text \<open>
  The configuration read from the environment; a variable that is not set is \<open>None\<close>
  (\<^verbatim>\<open>undefined\<close>).
\<close>

record config =
  SUBMISSION_CHANNEL_ID :: "string option"
  WISHLIST_SINGLE_CHANNEL_ID :: "string option"
  WISHLIST_MULTI_CHANNEL_ID :: "string option"

text \<open>
  The interaction: an autocomplete request with the focused text, a chat input command
  (its name, the id of the channel it was sent from, \<open>None\<close> when
  \<^verbatim>\<open>interaction.channel\<close> is \<^verbatim>\<open>null\<close>, the \<^verbatim>\<open>game\<close> option and the user name), or
  anything else.
\<close>

record command =
  commandName :: string
  channel_id :: "string option"
  game :: string
  username :: string

datatype interaction = Autocomplete string | ChatInputCommand command | OtherInteraction

text \<open>
  How \<^verbatim>\<open>client.channels.fetch(channelId)\<close> ends: it rejects, or resolves with a
  channel that is text based, or with \<^verbatim>\<open>null\<close> or a channel that is not.
\<close>

datatype channel_fetch = ChannelRejected | ChannelNotText | ChannelText

text \<open>
  The outside world of one interaction: the store's answers to the search, to the
  details request of the handler and to the details request of \<^verbatim>\<open>postGameEmbed\<close>
  (a new request, which may be answered differently), the channel look-up, and whether
  \<^verbatim>\<open>channel.send\<close> and the first \<^verbatim>\<open>interaction.respond\<close> resolve. The replies
  and the second \<^verbatim>\<open>respond\<close>, after which the handler does nothing more, are taken
  to resolve.
\<close>

record world =
  steam_search :: "string \<Rightarrow> search_fetch"
  steam_details :: "int \<Rightarrow> details_fetch"
  steam_details_embed :: "int \<Rightarrow> details_fetch"
  channels_fetch :: "string option \<Rightarrow> channel_fetch"
  send_resolves :: bool
  respond_resolves :: bool

text \<open>
  \<^verbatim>\<open>
  async function postGameEmbed(channelId: string, entry: WishlistEntry) {
    const channel = await client.channels.fetch(channelId) as TextChannel;
    if (!channel?.isTextBased()) return;
    const details = await fetchSteamDetails(entry.appid);
    if (!details) return;
    const embed = new EmbedBuilder()
      .setTitle(details.name).setURL(details.url)
      .setDescription(details.description.slice(0, 300) + '...')
      .addFields(
        { name: 'Price', value: details.price, inline: true },
        { name: 'Genres', value: details.genres.join(', ') || 'N/A', inline: false },
        { name: 'Tags', value: details.categories.join(', ') || 'N/A', inline: false })
      .setImage(details.headerImage);
    await channel.send({ embeds: [embed] });
  }
  \<close>
  The result is the log and whether the function ran to its end.
\<close>

definition postGameEmbed :: "world \<Rightarrow> string option \<Rightarrow> WishlistEntry \<Rightarrow> effect list \<times> bool" where
  "postGameEmbed w channelId entry =
     (case channels_fetch w channelId of
        ChannelRejected \<Rightarrow> ([], False)
      | ChannelNotText \<Rightarrow> ([], True)
      | ChannelText \<Rightarrow>
          (case fetchSteamDetails (steam_details_embed w) (appid entry) of
             None \<Rightarrow> ([SteamDetailsRequest (appid entry)], True)
           | Some d \<Rightarrow>
               ([SteamDetailsRequest (appid entry),
                 Send channelId
                   \<lparr>e_title = d_name d, e_url = d_url d,
                    e_description = take 300 (d_description d) @ ''...'',
                    e_fields = [(''Price'', d_price d, True),
                                (''Genres'', or_default (Some (join_comma (d_genres d))) ''N/A'', False),
                                (''Tags'', or_default (Some (join_comma (d_categories d))) ''N/A'', False)],
                    e_image = d_headerImage d\<rparr>],
                send_resolves w)))"

text \<open>
  \<^verbatim>\<open>matches.find(m => m.name.toLowerCase() === gameName.toLowerCase()) || matches[0]\<close>
\<close>

definition choose_match :: "search_result list \<Rightarrow> string \<Rightarrow> search_result option" where
  "choose_match matches gameName =
     (case find (\<lambda>m. toLowerCase (sr_name m) = toLowerCase gameName) matches of
        Some m \<Rightarrow> Some m
      | None \<Rightarrow> (case matches of [] \<Rightarrow> None | m # _ \<Rightarrow> Some m))"

text \<open>
  \<^verbatim>\<open>
  const dup = (type === 'single' || type === 'both')
    ? singleList.some(g => g.appid === entry.appid)
    : multiList.some(g => g.appid === entry.appid);
  \<close>
\<close>

definition dup :: "game_type \<Rightarrow> WishlistEntry \<Rightarrow> bot_state \<Rightarrow> bool" where
  "dup type entry s =
     (if type = Single \<or> type = Both
      then list_ex (\<lambda>g. appid g = appid entry) (singleList s)
      else list_ex (\<lambda>g. appid g = appid entry) (multiList s))"

text \<open>
  The end of the command handler, after the duplicate check:
  \<^verbatim>\<open>
  if (type === 'single') { singleList.push(entry); await postGameEmbed(singleDisplayChannel, entry); }
  if (type === 'multi') { multiList.push(entry); await postGameEmbed(multiDisplayChannel, entry); }
  saveLists();
  await interaction.reply({ content: '(thumbs up)', ephemeral: true });
  \<close>
  A rejection inside \<^verbatim>\<open>postGameEmbed\<close> is not caught: the handler stops there, after
  the push and before \<^verbatim>\<open>saveLists\<close>.
\<close>

definition store_and_announce ::
  "config \<Rightarrow> world \<Rightarrow> game_type \<Rightarrow> WishlistEntry \<Rightarrow> bot_state \<Rightarrow> effect list \<Rightarrow> outcome"
where
  "store_and_announce cfg w type entry s log =
     (let (s1, log1, ok1) =
            (if type = Single
             then (let (fx, ok) = postGameEmbed w (WISHLIST_SINGLE_CHANNEL_ID cfg) entry
                   in (s\<lparr>singleList := singleList s @ [entry]\<rparr>, log @ fx, ok))
             else (s, log, True))
      in if \<not> ok1 then \<lparr>state = s1, effects = log1, completed = False\<rparr>
         else
           (let (s2, log2, ok2) =
                  (if type = Multi
                   then (let (fx, ok) = postGameEmbed w (WISHLIST_MULTI_CHANNEL_ID cfg) entry
                         in (s1\<lparr>multiList := multiList s1 @ [entry]\<rparr>, log1 @ fx, ok))
                   else (s1, log1, True))
            in if \<not> ok2 then \<lparr>state = s2, effects = log2, completed = False\<rparr>
               else \<lparr>state = s2,
                     effects = log2 @ [SaveLists (singleList s2) (multiList s2), Reply ThumbsUp True],
                     completed = True\<rparr>))"

text \<open>
  The \<^verbatim>\<open>interactionCreate\<close> handler.
  \<^verbatim>\<open>
  if (interaction.isAutocomplete()) {
    const focused = interaction.options.getFocused() as string;
    try {
      const raw = await searchSteamGame(focused);
      const results = Array.isArray(raw) ? raw : [];
      const choices = results.slice(0, 5).map(r => ({ name: r.name, value: r.name }));
      await interaction.respond(choices);
    } catch { await interaction.respond([]); }
    return;
  }
  if (!interaction.isChatInputCommand() || interaction.commandName !== 'wishlist') return;
  const gameName = interaction.options.getString('game', true);
  if (interaction.channel?.id !== submissionChannel)
    return interaction.reply({ content: '... designated submission channel.', ephemeral: true });
  const rawMatches = await searchSteamGame(gameName);
  const matches = Array.isArray(rawMatches) ? rawMatches : [];
  const steamGame = matches.find(...) || matches[0];
  if (!steamGame) return interaction.reply({ content: '... not found on Steam.', ephemeral: true });
  const details = await fetchSteamDetails(steamGame.appid);
  if (!details) return interaction.reply({ content: '... fetch game details.', ephemeral: true });
  const type = getGameType(details.categories);
  if (type === 'unknown') return interaction.reply({ content: '... game type.', ephemeral: true });
  const entry = { name: steamGame.name, appid: steamGame.appid, suggester: interaction.user.username };
  const dup = ...;
  if (dup) return interaction.reply({ content: '... already in the wishlist.', ephemeral: true });
  ...
  \<close>
\<close>

definition interactionCreate :: "config \<Rightarrow> world \<Rightarrow> bot_state \<Rightarrow> interaction \<Rightarrow> outcome" where
  "interactionCreate cfg w s i =
     (case i of
        Autocomplete focused \<Rightarrow>
          (let (results, s1, log) = searchSteamGame (steam_search w) s focused;
               choices = map (\<lambda>r. (sr_name r, sr_name r)) (take 5 results)
           in \<lparr>state = s1,
               effects = log @ (if respond_resolves w then [Respond choices]
                                else [Respond choices, Respond []]),
               completed = True\<rparr>)
      | OtherInteraction \<Rightarrow> \<lparr>state = s, effects = [], completed = True\<rparr>
      | ChatInputCommand c \<Rightarrow>
          if commandName c \<noteq> ''wishlist'' then \<lparr>state = s, effects = [], completed = True\<rparr>
          else if channel_id c \<noteq> SUBMISSION_CHANNEL_ID cfg
          then \<lparr>state = s, effects = [Reply WrongChannel True], completed = True\<rparr>
          else
            (let (matches, s1, log) = searchSteamGame (steam_search w) s (game c)
             in case choose_match matches (game c) of
                  None \<Rightarrow> \<lparr>state = s1, effects = log @ [Reply GameNotFound True], completed = True\<rparr>
                | Some steamGame \<Rightarrow>
                    (let log1 = log @ [SteamDetailsRequest (sr_appid steamGame)]
                     in case fetchSteamDetails (steam_details w) (sr_appid steamGame) of
                          None \<Rightarrow> \<lparr>state = s1, effects = log1 @ [Reply NoDetails True],
                                    completed = True\<rparr>
                        | Some details \<Rightarrow>
                            (let type = getGameType (d_categories details)
                             in if type = Unknown
                                then \<lparr>state = s1, effects = log1 @ [Reply UnknownGameType True],
                                      completed = True\<rparr>
                                else
                                  (let entry = \<lparr>name = sr_name steamGame,
                                                appid = sr_appid steamGame,
                                                suggester = username c\<rparr>
                                   in if dup type entry s1
                                      then \<lparr>state = s1,
                                            effects = log1 @ [Reply AlreadyInWishlist True],
                                            completed = True\<rparr>
                                      else store_and_announce cfg w type entry s1 log1)))))"

subsection \<open>Completion monitor\<close>

text \<open>
  What the reaction handler reads of the chat platform. A discord.js collection is keyed
  by id and is modelled as the list of its values, \<^verbatim>\<open>size\<close> being the length.
\<close>

record user =
  user_id :: string
  user_bot :: bool

record role =
  role_name :: string

record member =
  member_user :: user
  member_roles :: "role list"

datatype channel_type = GuildVoice | OtherChannelType

record channel =
  ch_type :: channel_type
  ch_name :: string

text \<open>
  The guild: how \<^verbatim>\<open>guild.members.fetch()\<close> ends (\<open>None\<close> when it rejects),
  \<^verbatim>\<open>guild.members.cache\<close> and \<^verbatim>\<open>guild.channels.cache\<close>.
\<close>

record guild =
  members_fetch :: "member list option"
  members_cache :: "member list"
  channels_cache :: "channel list"

text \<open>
  One entry of \<^verbatim>\<open>message.reactions.cache\<close>: how its \<^verbatim>\<open>users.fetch()\<close> ends
  (\<open>None\<close> when it rejects).
\<close>

record message_reaction =
  users_fetch :: "user list option"

text \<open>The two fields the handler reads of a received embed; both may be \<^verbatim>\<open>null\<close>.\<close>

record received_embed =
  re_url :: "string option"
  re_title :: "string option"

record message =
  msg_guild :: "guild option"
  reactions_cache :: "message_reaction list"
  msg_embeds :: "received_embed list"

text \<open>
  The event: the reaction (whether it is partial and, if so, whether fetching it
  resolves), its message, and the user who reacted.
\<close>

record reaction_event =
  reaction_partial :: bool
  reaction_fetch_resolves :: bool
  reaction_message :: message
  reacting_user :: user

text \<open>
  \<^verbatim>\<open>
  const totalHumans = members.filter(m => {
    return !m.user.bot && !m.roles.cache.some(role => role.name.toLowerCase().includes('bot'));
  }).size;
  \<close>
\<close>

definition totalHumans :: "member list \<Rightarrow> nat" where
  "totalHumans members =
     length (filter (\<lambda>m. \<not> user_bot (member_user m)
                         \<and> \<not> list_ex (\<lambda>role. str_includes (toLowerCase (role_name role)) ''bot'')
                                      (member_roles m))
                    members)"

text \<open>
  A JavaScript \<^verbatim>\<open>Set\<close> of strings is the list of its elements in insertion order;
  \<^verbatim>\<open>add\<close> does nothing for an element that is there, \<^verbatim>\<open>size\<close> is the length.
\<close>

definition set_add :: "string \<Rightarrow> string list \<Rightarrow> string list" where
  "set_add x xs = (if x \<in> set xs then xs else xs @ [x])"

text \<open>\<^verbatim>\<open>users.forEach(u => { if (!u.bot) uniqueReactors.add(u.id); })\<close>\<close>

definition add_reactors :: "user list \<Rightarrow> string list \<Rightarrow> string list" where
  "add_reactors users uniqueReactors =
     foldl (\<lambda>acc u. if \<not> user_bot u then set_add (user_id u) acc else acc) uniqueReactors users"

text \<open>
  \<^verbatim>\<open>
  const uniqueReactors = new Set();
  for (const [, react] of reaction.message.reactions.cache) {
    const users = await react.users.fetch();
    users.forEach(...);
  }
  \<close>
  The loop, started with the set built so far; \<open>None\<close> when a \<^verbatim>\<open>users.fetch()\<close>
  rejects, which the handler does not catch.
\<close>

fun collect_reactors :: "message_reaction list \<Rightarrow> string list \<Rightarrow> string list option" where
  "collect_reactors [] uniqueReactors = Some uniqueReactors"
| "collect_reactors (react # rest) uniqueReactors =
     (case users_fetch react of
        None \<Rightarrow> None
      | Some users \<Rightarrow> collect_reactors rest (add_reactors users uniqueReactors))"

text \<open>
  \<^verbatim>\<open>url.match(/\/app\/(\d+)/)\<close>: the first place where \<^verbatim>\<open>/app/\<close> is followed by a
  digit; the capture group is the longest run of digits there. \<open>None\<close> is \<^verbatim>\<open>null\<close>.
\<close>

fun match_app :: "string \<Rightarrow> string option" where
  "match_app [] = None"
| "match_app (c # cs) =
     (let after = drop 5 (c # cs)
      in if prefix ''/app/'' (c # cs) \<and> takeWhile is_digit after \<noteq> []
         then Some (takeWhile is_digit after)
         else match_app cs)"

text \<open>The regular expression class \<^verbatim>\<open>\w\<close>: \<open>A\<close>..\<open>Z\<close>, \<open>a\<close>..\<open>z\<close>, \<open>0\<close>..\<open>9\<close>, \<open>_\<close>.\<close>

definition is_word_char :: "char \<Rightarrow> bool" where
  "is_word_char c \<longleftrightarrow>
     c \<in> set (''ABCDEFGHIJKLMNOPQRSTUVWXYZ'' @ ''abcdefghijklmnopqrstuvwxyz'' @ digit_chars @ ''_'')"

text \<open>
  \<^verbatim>\<open>toUpperCase\<close> of one character of class \<^verbatim>\<open>\w\<close>, the only place where the handler
  calls it.
\<close>

definition upper_char :: "char \<Rightarrow> char" where
  "upper_char c = (case map_of (zip ''abcdefghijklmnopqrstuvwxyz'' ''ABCDEFGHIJKLMNOPQRSTUVWXYZ'') c of
                     Some d \<Rightarrow> d | None \<Rightarrow> c)"

text \<open>
  \<^verbatim>\<open>title.replace(/\w\S*/g, (w) => w.charAt(0).toUpperCase() + w.slice(1).toLowerCase())\<close>
  as a scan from the left. Outside a match (\<open>False\<close>) a character of class \<^verbatim>\<open>\w\<close> starts
  a match and is upper-cased, any other character is copied. Inside a match (\<open>True\<close>) a
  character that is not white space belongs to the match and is lower-cased; white space
  ends the match and is copied.
\<close>

fun replace_words :: "bool \<Rightarrow> string \<Rightarrow> string" where
  "replace_words in_match [] = []"
| "replace_words True (c # cs) =
     (if is_space c then c # replace_words False cs else lower_char c # replace_words True cs)"
| "replace_words False (c # cs) =
     (if is_word_char c then upper_char c # replace_words True cs else c # replace_words False cs)"

text \<open>
  \<^verbatim>\<open>
  const capitalizedName = embed.title?.replace(...).substring(0, 90);
  \<close>
\<close>

definition capitalizedName :: "received_embed \<Rightarrow> string option" where
  "capitalizedName emb = map_option (\<lambda>title. take 90 (replace_words False title)) (re_title emb)"

text \<open>
  The branch of a multiplayer game:
  \<^verbatim>\<open>
  const existing = guild.channels.cache.find(c => c.type === ChannelType.GuildVoice
                                               && c.name === capitalizedName?.toLowerCase());
  if (!existing) {
    try {
      await guild.channels.create({ name: capitalizedName || 'Game Voice',
        type: ChannelType.GuildVoice, parent: process.env.GAME_VOICE_CATEGORY_ID, reason: '...' });
    } catch (e) { console.warn('Failed to create voice channel:', e); }
  }
  \<close>
  The log has the look-up with the name looked for, and the creation if it is asked for
  (whether or not it resolves: a rejection is caught and only printed).
\<close>

definition voice_channel :: "guild \<Rightarrow> received_embed \<Rightarrow> effect list" where
  "voice_channel g emb =
     (let wanted = map_option toLowerCase (capitalizedName emb);
          existing = find (\<lambda>c. ch_type c = GuildVoice \<and> Some (ch_name c) = wanted) (channels_cache g)
      in VoiceChannelLookup wanted #
         (if existing = None
          then [CreateVoiceChannel (or_default (capitalizedName emb) ''Game Voice'')]
          else []))"

text \<open>
  The body of \<^verbatim>\<open>if (uniqueReactors.size >= totalHumans)\<close>:
  \<^verbatim>\<open>
  const embed = reaction.message.embeds[0];
  const appidMatch = embed?.url?.match(/\/app\/(\d+)/);
  if (appidMatch) {
    const appid = parseInt(appidMatch[1]);
    const isMultiGame = multiList.some(g => g.appid === appid);
    singleList = singleList.filter(g => g.appid !== appid);
    multiList = multiList.filter(g => g.appid !== appid);
    saveLists();
    if (isMultiGame) { ... }
  }
  await reaction.message.delete().catch(() => {});
  \<close>
\<close>

definition appidMatch :: "message \<Rightarrow> (received_embed \<times> string) option" where
  "appidMatch msg =
     (case msg_embeds msg of
        [] \<Rightarrow> None
      | emb # _ \<Rightarrow>
          (case re_url emb of
             None \<Rightarrow> None
           | Some url \<Rightarrow> map_option (\<lambda>digits. (emb, digits)) (match_app url)))"

definition on_quorum :: "bot_state \<Rightarrow> guild \<Rightarrow> message \<Rightarrow> outcome" where
  "on_quorum s g msg =
     (case appidMatch msg of
        None \<Rightarrow> \<lparr>state = s, effects = [DeleteMessage], completed = True\<rparr>
      | Some (emb, digits) \<Rightarrow>
          (let appid = parseInt digits;
               isMultiGame = list_ex (\<lambda>g. WishlistEntry.appid g = appid) (multiList s);
               s' = removeByCatalogId appid s
           in \<lparr>state = s',
               effects = SaveLists (singleList s') (multiList s') #
                         (if isMultiGame then voice_channel g emb else []) @ [DeleteMessage],
               completed = True\<rparr>))"

text \<open>
  The \<^verbatim>\<open>messageReactionAdd\<close> handler.
  \<^verbatim>\<open>
  if (reaction.partial) await reaction.fetch();
  if (user.bot || !reaction.message.guild) return;
  const guild = reaction.message.guild;
  let members;
  try { members = await guild.members.fetch(); }
  catch (err) { console.warn("..."); members = guild.members.cache; }
  const totalHumans = ...;
  const uniqueReactors = ...;
  if (uniqueReactors.size >= totalHumans) { ... }
  \<close>
\<close>

definition fetched_members :: "guild \<Rightarrow> member list" where
  "fetched_members g = (case members_fetch g of Some members \<Rightarrow> members | None \<Rightarrow> members_cache g)"

definition messageReactionAdd :: "bot_state \<Rightarrow> reaction_event \<Rightarrow> outcome" where
  "messageReactionAdd s ev =
     (if reaction_partial ev \<and> \<not> reaction_fetch_resolves ev
      then \<lparr>state = s, effects = [], completed = False\<rparr>
      else if user_bot (reacting_user ev) then \<lparr>state = s, effects = [], completed = True\<rparr>
      else case msg_guild (reaction_message ev) of
             None \<Rightarrow> \<lparr>state = s, effects = [], completed = True\<rparr>
           | Some g \<Rightarrow>
               (case collect_reactors (reactions_cache (reaction_message ev)) [] of
                  None \<Rightarrow> \<lparr>state = s, effects = [], completed = False\<rparr>
                | Some uniqueReactors \<Rightarrow>
                    if length uniqueReactors \<ge> totalHumans (fetched_members g)
                    then on_quorum s g (reaction_message ev)
                    else \<lparr>state = s, effects = [], completed = True\<rparr>))"

subsection \<open>Reading a log\<close>

text \<open>The replies in a log, in order: the content and the \<^verbatim>\<open>ephemeral\<close> flag of each.\<close>

fun replies :: "effect list \<Rightarrow> (reply_content \<times> bool) list" where
  "replies [] = []"
| "replies (Reply x e # log) = (x, e) # replies log"
| "replies (other # log) = replies log"

subsection \<open>Inputs for the examples\<close>

definition empty_state :: bot_state where
  "empty_state = \<lparr>singleList = [], multiList = [], steamCache = Map.empty\<rparr>"

definition two_list_state :: bot_state where
  "two_list_state =
     \<lparr>singleList = [\<lparr>name = ''Hades'', appid = 1145360, suggester = ''ana''\<rparr>,
                     \<lparr>name = ''Portal 2'', appid = 620, suggester = ''ben''\<rparr>,
                     \<lparr>name = ''Celeste'', appid = 504230, suggester = ''ana''\<rparr>],
      multiList = [\<lparr>name = ''Deep Rock Galactic'', appid = 548430, suggester = ''cy''\<rparr>,
                    \<lparr>name = ''Portal 2'', appid = 620, suggester = ''cy''\<rparr>],
      steamCache = Map.empty\<rparr>"

definition store_no_items :: "string \<Rightarrow> search_fetch" where
  "store_no_items term = Response True (BodyData (Some []))"

definition store_portal :: "string \<Rightarrow> search_fetch" where
  "store_portal term = Response True (BodyData (Some [Item ''Portal 2'' 620, Item ''Portal'' 400]))"

definition store_timeout :: "string \<Rightarrow> search_fetch" where
  "store_timeout term = TimedOut"

definition example_config :: config where
  "example_config = \<lparr>SUBMISSION_CHANNEL_ID = Some ''100'', WISHLIST_SINGLE_CHANNEL_ID = Some ''200'',
                      WISHLIST_MULTI_CHANNEL_ID = Some ''300''\<rparr>"

definition portal_game :: raw_game where
  "portal_game = \<lparr>rg_name = ''Portal 2'', rg_short_description = Some ''Test chambers for two.'',
                   rg_is_free = False, rg_final_formatted = Some ''$9.99'',
                   rg_header_image = ''header.jpg'',
                   rg_categories = Some [''Single-player'', ''Online Co-op''],
                   rg_genres = Some [''Action'', ''Adventure'']\<rparr>"

definition portal_details :: details where
  "portal_details = \<lparr>d_name = ''Portal 2'', d_description = ''Test chambers for two.'',
                      d_price = ''$9.99'', d_headerImage = ''header.jpg'',
                      d_url = ''https://store.steampowered.com/app/620'',
                      d_categories = [''Single-player'', ''Online Co-op''],
                      d_genres = [''Action'', ''Adventure'']\<rparr>"

definition portal_matches :: "search_result list" where
  "portal_matches =
     [\<lparr>sr_name = ''Portal 2'', sr_appid = 620, sr_url = ''https://store.steampowered.com/app/620''\<rparr>,
      \<lparr>sr_name = ''Portal'', sr_appid = 400, sr_url = ''https://store.steampowered.com/app/400''\<rparr>]"

definition world_portal :: world where
  "world_portal = \<lparr>steam_search = store_portal,
                    steam_details = (\<lambda>i. DetailsData portal_game),
                    steam_details_embed = (\<lambda>i. DetailsData portal_game),
                    channels_fetch = (\<lambda>channelId. ChannelText),
                    send_resolves = True, respond_resolves = True\<rparr>"

definition world_details_down :: world where
  "world_details_down = world_portal\<lparr>steam_details := (\<lambda>i. DetailsTransportError)\<rparr>"

definition submit_portal :: command where
  "submit_portal = \<lparr>commandName = ''wishlist'', channel_id = Some ''100'', game = ''portal 2'',
                     username = ''dee''\<rparr>"

definition single_only_state :: bot_state where
  "single_only_state =
     \<lparr>singleList = [\<lparr>name = ''Portal 2'', appid = 620, suggester = ''ben''\<rparr>],
      multiList = [\<lparr>name = ''Deep Rock Galactic'', appid = 548430, suggester = ''cy''\<rparr>],
      steamCache = [''search:hades'' \<mapsto> []]\<rparr>"

definition ana :: user where "ana = \<lparr>user_id = ''1001'', user_bot = False\<rparr>"

definition ben :: user where "ben = \<lparr>user_id = ''1002'', user_bot = False\<rparr>"

definition zed :: user where "zed = \<lparr>user_id = ''1003'', user_bot = False\<rparr>"

definition wishbot :: user where "wishbot = \<lparr>user_id = ''9001'', user_bot = True\<rparr>"

definition crew_members :: "member list" where
  "crew_members =
     [\<lparr>member_user = ana, member_roles = [\<lparr>role_name = ''Gamers''\<rparr>]\<rparr>,
      \<lparr>member_user = ben, member_roles = []\<rparr>,
      \<lparr>member_user = wishbot, member_roles = []\<rparr>,
      \<lparr>member_user = zed, member_roles = [\<lparr>role_name = ''Gamers''\<rparr>, \<lparr>role_name = ''Music BOT''\<rparr>]\<rparr>]"

definition crew_guild :: guild where
  "crew_guild = \<lparr>members_fetch = Some crew_members, members_cache = [],
                  channels_cache = [\<lparr>ch_type = OtherChannelType, ch_name = ''wishlist''\<rparr>,
                                    \<lparr>ch_type = GuildVoice, ch_name = ''Deep Rock Galactic''\<rparr>]\<rparr>"

definition bots_guild :: guild where
  "bots_guild = \<lparr>members_fetch = None,
                  members_cache = [\<lparr>member_user = wishbot, member_roles = []\<rparr>,
                                   \<lparr>member_user = zed, member_roles = [\<lparr>role_name = ''Music BOT''\<rparr>]\<rparr>],
                  channels_cache = []\<rparr>"

definition drg_embed :: received_embed where
  "drg_embed = \<lparr>re_url = Some ''https://store.steampowered.com/app/548430/Deep_Rock_Galactic/'',
                 re_title = Some ''deep rock galactic''\<rparr>"

definition drg_message :: message where
  "drg_message = \<lparr>msg_guild = Some crew_guild,
                   reactions_cache = [\<lparr>users_fetch = Some [ana, wishbot]\<rparr>,
                                      \<lparr>users_fetch = Some [ben, ana]\<rparr>],
                   msg_embeds = [drg_embed]\<rparr>"

definition drg_event :: reaction_event where
  "drg_event = \<lparr>reaction_partial = False, reaction_fetch_resolves = True,
                 reaction_message = drg_message, reacting_user = ben\<rparr>"

definition early_event :: reaction_event where
  "early_event = drg_event\<lparr>reaction_message :=
                   drg_message\<lparr>reactions_cache := [\<lparr>users_fetch = Some [ana, wishbot]\<rparr>]\<rparr>\<rparr>"

definition lone_event :: reaction_event where
  "lone_event = \<lparr>reaction_partial = False, reaction_fetch_resolves = True,
                  reaction_message = \<lparr>msg_guild = Some bots_guild,
                                       reactions_cache = [\<lparr>users_fetch = Some [zed]\<rparr>],
                                       msg_embeds = [drg_embed]\<rparr>,
                  reacting_user = zed\<rparr>"

definition portal_event :: reaction_event where
  "portal_event = drg_event\<lparr>reaction_message :=
                    drg_message\<lparr>msg_embeds := [\<lparr>re_url = Some ''https://store.steampowered.com/app/620'',
                                                  re_title = Some ''Portal 2''\<rparr>]\<rparr>\<rparr>"

definition hades_game :: raw_game where
  "hades_game = \<lparr>rg_name = ''Hades'', rg_short_description = None,
                  rg_is_free = False, rg_final_formatted = None,
                  rg_header_image = ''hades.jpg'',
                  rg_categories = Some [''Single-player'', ''Steam Achievements''],
                  rg_genres = None\<rparr>"

definition hades_details :: details where
  "hades_details = \<lparr>d_name = ''Hades'', d_description = ''No description provided.'',
                     d_price = ''Unknown'', d_headerImage = ''hades.jpg'',
                     d_url = ''https://store.steampowered.com/app/1145360'',
                     d_categories = [''Single-player'', ''Steam Achievements''],
                     d_genres = []\<rparr>"

definition hades_matches :: "search_result list" where
  "hades_matches =
     [\<lparr>sr_name = ''Hades II'', sr_appid = 1145350, sr_url = ''https://store.steampowered.com/app/1145350''\<rparr>,
      \<lparr>sr_name = ''Hades'', sr_appid = 1145360, sr_url = ''https://store.steampowered.com/app/1145360''\<rparr>]"

definition world_hades :: world where
  "world_hades = \<lparr>steam_search = (\<lambda>term. Response True (BodyData (Some [Item ''Hades II'' 1145350,
                                                                         Item ''Hades'' 1145360]))),
                   steam_details = (\<lambda>i. DetailsData hades_game),
                   steam_details_embed = (\<lambda>i. DetailsData hades_game),
                   channels_fetch = (\<lambda>channelId. ChannelText),
                   send_resolves = True, respond_resolves = True\<rparr>"

definition submit_hades :: command where
  "submit_hades = \<lparr>commandName = ''wishlist'', channel_id = Some ''100'', game = ''HADES'',
                    username = ''dee''\<rparr>"

section \<open>Properties\<close>

subsection \<open>Strings\<close>

lemma str_includes_sublist: "str_includes s sub = sublist sub s"
  by (induction s) (auto simp: sublist_Cons_right)

lemmas string_eval = toLowerCase_def lower_char_def upper_letters_def lower_letters_def

subsection \<open>Classifier\<close>

text \<open>
  C2. Whatever the category tags: when some tag, lower-cased, has \<open>multiplayer\<close>,
  \<open>co-op\<close> or \<open>cross-platform\<close> as a substring, the classifier answers \<open>multi\<close>, also
  when \<open>single-player\<close> is among the tags; otherwise, when \<open>single-player\<close> is one of the
  lower-cased tags (the whole tag), it answers \<open>single\<close>; otherwise \<open>unknown\<close>. It never
  answers \<open>both\<close>.
\<close>

theorem getGameType_precedence:
  "getGameType categories =
     (if \<exists>c \<in> set categories. sublist ''multiplayer'' (toLowerCase c)
                             \<or> sublist ''co-op'' (toLowerCase c)
                             \<or> sublist ''cross-platform'' (toLowerCase c)
      then Multi
      else if ''single-player'' \<in> toLowerCase ` set categories then Single
      else Unknown)
   \<and> getGameType categories \<noteq> Both"
  by (auto simp: getGameType_def Let_def list_ex_iff str_includes_sublist)

theorem getGameType_precedence_witness:
  "(\<exists>c \<in> set [''Single-player'', ''Online Co-op'']. sublist ''multiplayer'' (toLowerCase c)
                             \<or> sublist ''co-op'' (toLowerCase c)
                             \<or> sublist ''cross-platform'' (toLowerCase c))
   \<and> getGameType [''Single-player'', ''Online Co-op''] = Multi
   \<and> getGameType [''Single-player'', ''Online Co-op''] \<noteq> Both"
proof -
  have "str_includes (toLowerCase ''Online Co-op'') ''co-op''"
    by code_simp
  then have ex: "\<exists>c \<in> set [''Single-player'', ''Online Co-op''].
       sublist ''multiplayer'' (toLowerCase c) \<or> sublist ''co-op'' (toLowerCase c)
       \<or> sublist ''cross-platform'' (toLowerCase c)"
    unfolding str_includes_sublist by simp
  from ex getGameType_precedence [of "[''Single-player'', ''Online Co-op'']"]
  show ?thesis
    by (simp only: if_True simp_thms game_type.distinct)
qed

lemma getGameType_examples:
  "getGameType [''Single-player'', ''Steam Achievements''] = Single"
  "getGameType [''Steam Achievements''] = Unknown"
  "getGameType [''MULTIPLAYER''] = Multi"
  "getGameType [''Cross-Platform Multiplayer'', ''Single-player''] = Multi"
  "getGameType [''single-player mode''] = Unknown"
  "getGameType [] = Unknown"
  by code_simp+

subsection \<open>Wishlist store\<close>

lemma contains_iff: "contains list i \<longleftrightarrow> (\<exists>g \<in> set list. appid g = i)"
  by (simp add: contains_def list_ex_iff)

lemma filter_absent: "\<not> contains list i \<Longrightarrow> filter (\<lambda>g. appid g \<noteq> i) list = list"
  by (induction list) (auto simp: contains_iff)

text \<open>
  C4. Whatever the two collections and the identifier, the removal leaves no entry with
  that identifier in the single or in the multi collection; the entries with another
  identifier are the same as before, in the same order (and the cache is not touched);
  removing twice gives what removing once gives; and removing an identifier that is in
  neither collection changes nothing.
\<close>

theorem removeByCatalogId_dual:
  "\<not> contains (singleList (removeByCatalogId i s)) i
   \<and> \<not> contains (multiList (removeByCatalogId i s)) i
   \<and> singleList (removeByCatalogId i s) = filter (\<lambda>g. appid g \<noteq> i) (singleList s)
   \<and> multiList (removeByCatalogId i s) = filter (\<lambda>g. appid g \<noteq> i) (multiList s)
   \<and> steamCache (removeByCatalogId i s) = steamCache s
   \<and> removeByCatalogId i (removeByCatalogId i s) = removeByCatalogId i s
   \<and> (\<not> contains (singleList s) i \<and> \<not> contains (multiList s) i \<longrightarrow> removeByCatalogId i s = s)"
  by (simp add: removeByCatalogId_def contains_iff filter_absent)

theorem removeByCatalogId_dual_witness:
  "removeByCatalogId 620 two_list_state
     = \<lparr>singleList = [\<lparr>name = ''Hades'', appid = 1145360, suggester = ''ana''\<rparr>,
                       \<lparr>name = ''Celeste'', appid = 504230, suggester = ''ana''\<rparr>],
        multiList = [\<lparr>name = ''Deep Rock Galactic'', appid = 548430, suggester = ''cy''\<rparr>],
        steamCache = Map.empty\<rparr>
   \<and> \<not> contains (singleList two_list_state) 7 \<and> \<not> contains (multiList two_list_state) 7
   \<and> removeByCatalogId 7 two_list_state = two_list_state"
  using removeByCatalogId_dual [of 620 two_list_state] removeByCatalogId_dual [of 7 two_list_state]
  by (simp add: contains_def two_list_state_def)

subsection \<open>Catalog resolver\<close>

lemma search_hit:
  "steamCache s (cacheKey_of q) = Some cached \<Longrightarrow> searchSteamGame store s q = (cached, s, [])"
  by (simp add: searchSteamGame_def cacheKey_of_def)

text \<open>The three ways a search ends: a hit, a failed request, a stored answer.\<close>

lemma search_cases:
  "searchSteamGame store s q = (results, s', log) \<Longrightarrow>
     (steamCache s (cacheKey_of q) = Some results \<and> s' = s \<and> log = [])
   \<or> (steamCache s (cacheKey_of q) = None \<and> results = [] \<and> s' = s
        \<and> log = [SteamSearchRequest (trim (toLowerCase q))])
   \<or> (steamCache s (cacheKey_of q) = None
        \<and> s' = s\<lparr>steamCache := (steamCache s)(cacheKey_of q \<mapsto> results)\<rparr>
        \<and> log = [SteamSearchRequest (trim (toLowerCase q)), SaveCache])"
  by (auto simp: searchSteamGame_def cacheKey_of_def Let_def
           split: option.splits search_fetch.splits search_body.splits if_splits)

lemma those_to_result_None:
  "those (map to_result items) = None \<longleftrightarrow> ItemNullish \<in> set items"
  by (induction items) (auto simp: to_result_def split: raw_item.splits option.splits)

lemmas key_eval = cacheKey_of_def trim_def is_space_def string_eval

lemma search_empty_success:
  assumes "steamCache s (cacheKey_of q) = None"
      and "store (trim (toLowerCase q)) = Response True (BodyData data_items)"
      and "data_items = None \<or> data_items = Some []"
  shows "searchSteamGame store s q
           = ([], s\<lparr>steamCache := (steamCache s)(cacheKey_of q \<mapsto> [])\<rparr>,
              [SteamSearchRequest (trim (toLowerCase q)), SaveCache])"
  using assms by (auto simp: searchSteamGame_def cacheKey_of_def Let_def)

text \<open>
  C6. When a search returns the empty sequence after storing and saving it (the write of
  the cache file is in the log, so the request was answered and the \<^verbatim>\<open>try\<close> block ran
  to its end), the cache maps the normalised key to the empty sequence. From then on, in
  any state in which the cache still has that entry, a search whose query has the same
  key, whatever the store would answer, returns the empty sequence, leaves the state as
  it is and has an empty log: no request is made.
\<close>

theorem search_empty_result_cached:
  assumes "searchSteamGame store s q = ([], s', log)" and "SaveCache \<in> set log"
  shows "steamCache s' (cacheKey_of q) = Some []
         \<and> (\<forall>store' s'' q'. steamCache s'' (cacheKey_of q) = steamCache s' (cacheKey_of q)
                             \<and> cacheKey_of q' = cacheKey_of q \<longrightarrow>
               searchSteamGame store' s'' q' = ([], s'', []))"
  using search_cases [OF assms(1)] assms(2) by (auto simp: search_hit)

theorem search_empty_result_cached_witness:
  "searchSteamGame store_no_items empty_state ''  Half-Life 3 ''
     = ([], empty_state\<lparr>steamCache := [''search:half-life 3'' \<mapsto> []]\<rparr>,
        [SteamSearchRequest ''half-life 3'', SaveCache])
   \<and> steamCache (empty_state\<lparr>steamCache := [''search:half-life 3'' \<mapsto> []]\<rparr>)
         (cacheKey_of ''  Half-Life 3 '') = Some []
   \<and> searchSteamGame store_portal (empty_state\<lparr>steamCache := [''search:half-life 3'' \<mapsto> []]\<rparr>)
         ''HALF-LIFE 3''
     = ([], empty_state\<lparr>steamCache := [''search:half-life 3'' \<mapsto> []]\<rparr>, [])"
proof -
  have run: "searchSteamGame store_no_items empty_state ''  Half-Life 3 ''
     = ([], empty_state\<lparr>steamCache := [''search:half-life 3'' \<mapsto> []]\<rparr>,
        [SteamSearchRequest ''half-life 3'', SaveCache])"
    by (simp add: searchSteamGame_def Let_def store_no_items_def empty_state_def key_eval)
  have saved: "SaveCache \<in> set [SteamSearchRequest ''half-life 3'', SaveCache]"
    by simp
  have same_key: "cacheKey_of ''HALF-LIFE 3'' = cacheKey_of ''  Half-Life 3 ''"
    by (simp add: key_eval)
  from search_empty_result_cached [OF run saved] same_key run
  show ?thesis by blast
qed

text \<open>
  C7. When a search misses the cache and the request fails (the timer aborts it, the
  transport rejects it, the status is not 2xx, the body is not JSON or is \<^verbatim>\<open>null\<close>, or
  one of the first ten items is \<^verbatim>\<open>null\<close>), the search returns the empty sequence and
  the state, the cache in it, is the one before the call.
\<close>

theorem search_failure_not_cached:
  assumes "steamCache s (cacheKey_of q) = None"
      and "store (trim (toLowerCase q)) = TimedOut
           \<or> store (trim (toLowerCase q)) = TransportFailure
           \<or> (\<exists>body. store (trim (toLowerCase q)) = Response False body)
           \<or> store (trim (toLowerCase q)) = Response True BodyNotJson
           \<or> store (trim (toLowerCase q)) = Response True BodyNullish
           \<or> (\<exists>items. store (trim (toLowerCase q)) = Response True (BodyData (Some items))
                       \<and> ItemNullish \<in> set (take 10 items))"
  shows "searchSteamGame store s q = ([], s, [SteamSearchRequest (trim (toLowerCase q))])"
  using assms
  by (auto simp: searchSteamGame_def cacheKey_of_def Let_def those_to_result_None [THEN iffD2])

theorem search_failure_not_cached_witness:
  "steamCache empty_state (cacheKey_of ''Portal 2'') = None
   \<and> store_timeout (trim (toLowerCase ''Portal 2'')) = TimedOut
   \<and> searchSteamGame store_timeout empty_state ''Portal 2''
       = ([], empty_state, [SteamSearchRequest (trim (toLowerCase ''Portal 2''))])"
proof -
  have miss: "steamCache empty_state (cacheKey_of ''Portal 2'') = None"
    by (simp add: empty_state_def)
  have down: "store_timeout (trim (toLowerCase ''Portal 2'')) = TimedOut"
    by (simp add: store_timeout_def)
  from search_failure_not_cached [where store = store_timeout, OF miss disjI1 [OF down]] miss down
  show ?thesis by simp
qed

subsection \<open>Submission handler\<close>

lemma replies_append: "replies (xs @ ys) = replies xs @ replies ys"
  by (induction xs rule: replies.induct) auto

lemma search_lists:
  "searchSteamGame store s q = (results, s', log) \<Longrightarrow>
     singleList s' = singleList s \<and> multiList s' = multiList s"
  by (drule search_cases) auto

lemma search_cache_kept:
  "searchSteamGame store s q = (results, s', log) \<Longrightarrow> steamCache s k = Some v \<Longrightarrow>
     steamCache s' k = Some v"
  by (drule search_cases) auto

lemma store_and_announce_cache:
  "steamCache (state (store_and_announce cfg w type entry s log)) = steamCache s"
  by (auto simp: store_and_announce_def Let_def split: prod.splits)

text \<open>No handler removes or changes an entry of the cache.\<close>

lemma interactionCreate_cache_kept:
  "steamCache s k = Some v \<Longrightarrow> steamCache (state (interactionCreate cfg w s i)) k = Some v"
  by (auto simp: interactionCreate_def Let_def store_and_announce_cache
           split: interaction.splits prod.splits option.splits
           dest: search_cache_kept)

lemma messageReactionAdd_cache:
  "steamCache (state (messageReactionAdd s ev)) = steamCache s"
  by (simp add: messageReactionAdd_def on_quorum_def removeByCatalogId_def Let_def
           split: option.splits prod.splits)

lemma search_replies: "searchSteamGame store s q = (results, s', log) \<Longrightarrow> replies log = []"
  by (drule search_cases) auto

lemma postGameEmbed_replies: "replies (fst (postGameEmbed w ch entry)) = []"
  by (simp add: postGameEmbed_def split: channel_fetch.splits option.splits)

lemma fetchSteamDetails_None:
  "fetchSteamDetails store i = None \<longleftrightarrow>
     store i \<in> {DetailsTransportError, DetailsMalformed, DetailsNoData}"
  by (simp add: fetchSteamDetails_def split: details_fetch.splits)

lemma store_and_announce_replies:
  "replies (effects (store_and_announce cfg w type entry s log)) = replies log \<or>
   replies (effects (store_and_announce cfg w type entry s log)) = replies log @ [(ThumbsUp, True)]"
  by (auto simp: store_and_announce_def Let_def replies_append postGameEmbed_replies split: prod.splits
      dest: arg_cong [where f = "\<lambda>p. replies (fst p)"])

text \<open>
  C3. Take a \<^verbatim>\<open>wishlist\<close> command from the submission channel whose search gives a
  chosen candidate with identifier \<open>X\<close> and whose details are fetched. If the categories
  classify as \<open>single\<close>, the command is answered with the warning that the game is
  already in the wishlist exactly when the single collection has an entry with
  identifier \<open>X\<close>; if they classify as \<open>multi\<close>, exactly when the multi collection has
  one. So an entry with \<open>X\<close> in the other collection alone never causes the warning. For
  the value \<open>both\<close>, which the classifier never returns, the duplicate test looks at the
  single collection.
\<close>

theorem duplicate_check_same_collection:
  assumes "commandName c = ''wishlist''"
      and "channel_id c = SUBMISSION_CHANNEL_ID cfg"
      and "searchSteamGame (steam_search w) s (game c) = (matches, s1, log)"
      and "choose_match matches (game c) = Some steamGame"
      and "fetchSteamDetails (steam_details w) (sr_appid steamGame) = Some d"
  shows "(getGameType (d_categories d) = Single \<longrightarrow>
            (replies (effects (interactionCreate cfg w s (ChatInputCommand c))) = [(AlreadyInWishlist, True)]
               \<longleftrightarrow> contains (singleList s) (sr_appid steamGame)))
       \<and> (getGameType (d_categories d) = Multi \<longrightarrow>
            (replies (effects (interactionCreate cfg w s (ChatInputCommand c))) = [(AlreadyInWishlist, True)]
               \<longleftrightarrow> contains (multiList s) (sr_appid steamGame)))
       \<and> (dup Both entry s \<longleftrightarrow> contains (singleList s) (appid entry))"
proof -
  let ?e = "\<lparr>name = sr_name steamGame, appid = sr_appid steamGame, suggester = username c\<rparr>"
  let ?log1 = "log @ [SteamDetailsRequest (sr_appid steamGame)]"
  have lists: "singleList s1 = singleList s" "multiList s1 = multiList s"
    using search_lists [OF assms(3)] by simp_all
  have log1: "replies ?log1 = []"
    using search_replies [OF assms(3)] by (simp add: replies_append)
  have no_dup: "replies (effects (store_and_announce cfg w t ?e s1 ?log1)) \<noteq> [(AlreadyInWishlist, True)]" for t
    using store_and_announce_replies [of cfg w t ?e s1 ?log1] log1 by auto
  show ?thesis
    using assms lists log1 no_dup
    by (auto simp: interactionCreate_def dup_def contains_def replies_append Let_def split: if_splits)
qed

text \<open>
  C8. Take a \<^verbatim>\<open>wishlist\<close> command that fails at one of the steps: it comes from another
  channel than the submission channel; or the search gives no candidate; or the details
  request for the chosen candidate ends in a transport error, a malformed body or no
  data; or the categories classify as \<open>unknown\<close>; or the duplicate test is positive.
  Then the handler makes exactly one reply, it is ephemeral and is not the final
  acknowledgement, both collections are what they were, every entry that was in the cache
  is still there with the same value, and the handler runs to its end.
\<close>

theorem failed_submission_changes_nothing:
  assumes "commandName c = ''wishlist''"
      and "searchSteamGame (steam_search w) s (game c) = (matches, s1, log)"
      and "channel_id c \<noteq> SUBMISSION_CHANNEL_ID cfg
           \<or> choose_match matches (game c) = None
           \<or> (\<exists>g. choose_match matches (game c) = Some g
                  \<and> steam_details w (sr_appid g) \<in> {DetailsTransportError, DetailsMalformed, DetailsNoData})
           \<or> (\<exists>g d. choose_match matches (game c) = Some g
                  \<and> fetchSteamDetails (steam_details w) (sr_appid g) = Some d
                  \<and> (getGameType (d_categories d) = Unknown
                      \<or> dup (getGameType (d_categories d))
                             \<lparr>name = sr_name g, appid = sr_appid g, suggester = username c\<rparr> s1))"
  shows "(\<exists>x. x \<noteq> ThumbsUp
              \<and> replies (effects (interactionCreate cfg w s (ChatInputCommand c))) = [(x, True)])
         \<and> singleList (state (interactionCreate cfg w s (ChatInputCommand c))) = singleList s
         \<and> multiList (state (interactionCreate cfg w s (ChatInputCommand c))) = multiList s
         \<and> (\<forall>k v. steamCache s k = Some v \<longrightarrow>
                steamCache (state (interactionCreate cfg w s (ChatInputCommand c))) k = Some v)
         \<and> completed (interactionCreate cfg w s (ChatInputCommand c))"
proof -
  have lists: "singleList s1 = singleList s" "multiList s1 = multiList s"
    using search_lists [OF assms(2)] by simp_all
  have kept: "\<forall>k v. steamCache s k = Some v \<longrightarrow> steamCache s1 k = Some v"
    using search_cache_kept [OF assms(2)] by blast
  have log: "replies log = []"
    using search_replies [OF assms(2)] .
  have fails: "channel_id c \<noteq> SUBMISSION_CHANNEL_ID cfg
           \<or> choose_match matches (game c) = None
           \<or> (\<exists>g. choose_match matches (game c) = Some g
                  \<and> fetchSteamDetails (steam_details w) (sr_appid g) = None)
           \<or> (\<exists>g d. choose_match matches (game c) = Some g
                  \<and> fetchSteamDetails (steam_details w) (sr_appid g) = Some d
                  \<and> (getGameType (d_categories d) = Unknown
                      \<or> dup (getGameType (d_categories d))
                             \<lparr>name = sr_name g, appid = sr_appid g, suggester = username c\<rparr> s1))"
    using assms(3) unfolding fetchSteamDetails_None .
  show ?thesis
    using assms(1,2) fails lists kept log
    by (auto simp: interactionCreate_def replies_append Let_def split: option.splits)
qed

lemma search_portal_two:
  "searchSteamGame (steam_search world_portal) two_list_state (game submit_portal)
     = (portal_matches, two_list_state\<lparr>steamCache := [''search:portal 2'' \<mapsto> portal_matches]\<rparr>,
        [SteamSearchRequest ''portal 2'', SaveCache])"
  by (simp add: searchSteamGame_def Let_def world_portal_def store_portal_def two_list_state_def
                submit_portal_def portal_matches_def to_result_def int_to_string_def digit_chars_def
                trim_def is_space_def string_eval)

lemma search_portal_single_only:
  "searchSteamGame (steam_search world_portal) single_only_state (game submit_portal)
     = (portal_matches,
        single_only_state\<lparr>steamCache := [''search:hades'' \<mapsto> [], ''search:portal 2'' \<mapsto> portal_matches]\<rparr>,
        [SteamSearchRequest ''portal 2'', SaveCache])"
  by (simp add: searchSteamGame_def Let_def world_portal_def store_portal_def single_only_state_def
                submit_portal_def portal_matches_def to_result_def int_to_string_def digit_chars_def
                trim_def is_space_def string_eval)

lemma choose_portal:
  "choose_match portal_matches (game submit_portal) = Some (hd portal_matches)"
  by (simp add: choose_match_def portal_matches_def submit_portal_def string_eval)

lemma details_portal:
  "fetchSteamDetails (steam_details world_portal) (sr_appid (hd portal_matches)) = Some portal_details"
  by (simp add: fetchSteamDetails_def world_portal_def portal_matches_def portal_game_def
                portal_details_def or_default_def int_to_string_def digit_chars_def)

lemma portal_is_multi: "getGameType (d_categories portal_details) = Multi"
  unfolding portal_details_def by code_simp

lemma search_hades:
  "searchSteamGame (steam_search world_hades) two_list_state (game submit_hades)
     = (hades_matches, two_list_state\<lparr>steamCache := [''search:hades'' \<mapsto> hades_matches]\<rparr>,
        [SteamSearchRequest ''hades'', SaveCache])"
  by (simp add: searchSteamGame_def Let_def world_hades_def two_list_state_def
                submit_hades_def hades_matches_def to_result_def int_to_string_def digit_chars_def
                trim_def is_space_def string_eval)

lemma choose_hades:
  "choose_match hades_matches (game submit_hades) = Some (hades_matches ! 1)"
  by (simp add: choose_match_def hades_matches_def submit_hades_def string_eval)

lemma details_hades:
  "fetchSteamDetails (steam_details world_hades) (sr_appid (hades_matches ! 1)) = Some hades_details"
  by (simp add: fetchSteamDetails_def world_hades_def hades_matches_def hades_game_def
                hades_details_def or_default_def int_to_string_def digit_chars_def)

lemma hades_is_single: "getGameType (d_categories hades_details) = Single"
  unfolding hades_details_def by code_simp

theorem duplicate_check_same_collection_witness:
  "getGameType (d_categories portal_details) = Multi
   \<and> contains (multiList two_list_state) 620
   \<and> replies (effects (interactionCreate example_config world_portal two_list_state
                          (ChatInputCommand submit_portal))) = [(AlreadyInWishlist, True)]
   \<and> contains (singleList single_only_state) 620
   \<and> \<not> contains (multiList single_only_state) 620
   \<and> replies (effects (interactionCreate example_config world_portal single_only_state
                          (ChatInputCommand submit_portal))) \<noteq> [(AlreadyInWishlist, True)]
   \<and> getGameType (d_categories hades_details) = Single
   \<and> contains (singleList two_list_state) 1145360
   \<and> replies (effects (interactionCreate example_config world_hades two_list_state
                          (ChatInputCommand submit_hades))) = [(AlreadyInWishlist, True)]"
proof -
  have name: "commandName submit_portal = ''wishlist''" "commandName submit_hades = ''wishlist''"
    by (simp_all add: submit_portal_def submit_hades_def)
  have channel: "channel_id submit_portal = SUBMISSION_CHANNEL_ID example_config"
    "channel_id submit_hades = SUBMISSION_CHANNEL_ID example_config"
    by (simp_all add: submit_portal_def submit_hades_def example_config_def)
  have id: "sr_appid (hd portal_matches) = 620" "sr_appid (hades_matches ! 1) = 1145360"
    by (simp_all add: portal_matches_def hades_matches_def)
  have present: "contains (multiList two_list_state) 620" "contains (singleList single_only_state) 620"
    "contains (singleList two_list_state) 1145360"
    and absent: "\<not> contains (multiList single_only_state) 620"
    by (simp_all add: contains_def two_list_state_def single_only_state_def)
  from duplicate_check_same_collection
         [OF name(1) channel(1) search_portal_two choose_portal details_portal]
       duplicate_check_same_collection
         [OF name(1) channel(1) search_portal_single_only choose_portal details_portal]
       duplicate_check_same_collection
         [OF name(2) channel(2) search_hades choose_hades details_hades]
       portal_is_multi hades_is_single id present absent
  show ?thesis by simp
qed

text \<open>The scenario of the specification: \<open>Portal 2\<close> has a co-op tag and is stored in the multi collection only.\<close>

lemma portal_submission_scenario:
  "singleList (state (interactionCreate example_config world_portal empty_state
                        (ChatInputCommand submit_portal))) = []"
  "multiList (state (interactionCreate example_config world_portal empty_state
                       (ChatInputCommand submit_portal)))
     = [\<lparr>name = ''Portal 2'', appid = 620, suggester = ''dee''\<rparr>]"
  "effects (interactionCreate example_config world_portal empty_state (ChatInputCommand submit_portal))
     = [SteamSearchRequest ''portal 2'', SaveCache, SteamDetailsRequest 620, SteamDetailsRequest 620,
        Send (Some ''300'')
          \<lparr>e_title = ''Portal 2'', e_url = ''https://store.steampowered.com/app/620'',
           e_description = ''Test chambers for two....'',
           e_fields = [(''Price'', ''$9.99'', True), (''Genres'', ''Action, Adventure'', False),
                       (''Tags'', ''Single-player, Online Co-op'', False)],
           e_image = ''header.jpg''\<rparr>,
        SaveLists [] [\<lparr>name = ''Portal 2'', appid = 620, suggester = ''dee''\<rparr>],
        Reply ThumbsUp True]"
  by code_simp+

theorem failed_submission_changes_nothing_witness:
  "steam_details world_details_down 620 = DetailsTransportError
   \<and> (\<exists>x. x \<noteq> ThumbsUp
          \<and> replies (effects (interactionCreate example_config world_details_down single_only_state
                                 (ChatInputCommand submit_portal))) = [(x, True)])
   \<and> singleList (state (interactionCreate example_config world_details_down single_only_state
                           (ChatInputCommand submit_portal))) = singleList single_only_state
   \<and> multiList (state (interactionCreate example_config world_details_down single_only_state
                          (ChatInputCommand submit_portal))) = multiList single_only_state
   \<and> steamCache single_only_state ''search:hades'' = Some []
   \<and> steamCache (state (interactionCreate example_config world_details_down single_only_state
                           (ChatInputCommand submit_portal))) ''search:hades'' = Some []"
proof -
  have name: "commandName submit_portal = ''wishlist''"
    by (simp add: submit_portal_def)
  have search: "searchSteamGame (steam_search world_details_down) single_only_state (game submit_portal)
     = (portal_matches,
        single_only_state\<lparr>steamCache := [''search:hades'' \<mapsto> [], ''search:portal 2'' \<mapsto> portal_matches]\<rparr>,
        [SteamSearchRequest ''portal 2'', SaveCache])"
    using search_portal_single_only by (simp add: world_details_down_def)
  have down: "steam_details world_details_down 620 = DetailsTransportError"
    by (simp add: world_details_down_def)
  have id: "sr_appid (hd portal_matches) = 620"
    by (simp add: portal_matches_def)
  have fails: "\<exists>g. choose_match portal_matches (game submit_portal) = Some g
                 \<and> steam_details world_details_down (sr_appid g)
                     \<in> {DetailsTransportError, DetailsMalformed, DetailsNoData}"
    using choose_portal down id by simp
  have cached: "steamCache single_only_state ''search:hades'' = Some []"
    by (simp add: single_only_state_def)
  from failed_submission_changes_nothing
         [where cfg = example_config, OF name search disjI2 [OF disjI2 [OF disjI1 [OF fails]]]]
       down cached
  show ?thesis by simp
qed

subsection \<open>Completion monitor\<close>

lemma set_add_set: "set (set_add x xs) = insert x (set xs)"
  by (auto simp: set_add_def)

lemma set_add_distinct: "distinct xs \<Longrightarrow> distinct (set_add x xs)"
  by (simp add: set_add_def)

lemma add_reactors_set:
  "set (add_reactors users acc) = set acc \<union> {user_id u | u. u \<in> set users \<and> \<not> user_bot u}"
  unfolding add_reactors_def
  by (induction users arbitrary: acc) (auto simp: set_add_set)

lemma add_reactors_distinct: "distinct acc \<Longrightarrow> distinct (add_reactors users acc)"
  unfolding add_reactors_def
  by (induction users arbitrary: acc) (auto simp: set_add_distinct)

lemma collect_reactors_Some:
  "\<forall>react \<in> set reacts. users_fetch react \<noteq> None \<Longrightarrow> \<exists>out. collect_reactors reacts acc = Some out"
  by (induction reacts arbitrary: acc) auto

lemma collect_reactors_set:
  "collect_reactors reacts acc = Some out \<Longrightarrow>
     set out = set acc \<union> (\<Union>react \<in> set reacts.
                               \<Union>users \<in> set_option (users_fetch react).
                                 user_id ` {u \<in> set users. \<not> user_bot u})"
  by (induction reacts arbitrary: acc)
     (auto simp: add_reactors_set split: option.splits)

lemma collect_reactors_distinct:
  "collect_reactors reacts acc = Some out \<Longrightarrow> distinct acc \<Longrightarrow> distinct out"
  by (induction reacts arbitrary: acc) (auto simp: add_reactors_distinct split: option.splits)

lemma collect_reactors_size:
  assumes "collect_reactors reacts [] = Some out"
  shows "length out = card (\<Union>react \<in> set reacts.
                              \<Union>users \<in> set_option (users_fetch react).
                                user_id ` {u \<in> set users. \<not> user_bot u})"
  using collect_reactors_set [OF assms] collect_reactors_distinct [OF assms]
  by (simp add: distinct_card [symmetric])

lemma totalHumans_count:
  "totalHumans members =
     length [m \<leftarrow> members. \<not> user_bot (member_user m)
                \<and> (\<forall>role \<in> set (member_roles m). \<not> sublist ''bot'' (toLowerCase (role_name role)))]"
  by (simp add: totalHumans_def list_ex_iff str_includes_sublist)

lemma on_quorum_deletes: "DeleteMessage \<in> set (effects (on_quorum s g msg))"
  by (simp add: on_quorum_def Let_def split: option.splits prod.splits)

text \<open>
  C1. Take a reaction-add event that the handler works through: the reaction is there
  (not a partial one whose fetch rejects), the user who reacted is not a bot, the message
  is in a guild, and the users of every reaction on the message are fetched. Then the
  handler takes the quorum branch (it does what \<open>on_quorum\<close> does, and only then asks
  for the message to be deleted) exactly when the number of distinct identifiers of
  users that are not bots, over all reactions on the message together, is at least the
  number of members (fetched, or cached when the fetch rejects) that are not bot accounts
  and have no role whose lower-cased name contains \<open>bot\<close>.
\<close>

theorem quorum_iff_reactors_cover_humans:
  assumes "\<not> (reaction_partial ev \<and> \<not> reaction_fetch_resolves ev)"
      and "\<not> user_bot (reacting_user ev)"
      and "msg_guild (reaction_message ev) = Some g"
      and "\<forall>react \<in> set (reactions_cache (reaction_message ev)). users_fetch react \<noteq> None"
  shows "(messageReactionAdd s ev = on_quorum s g (reaction_message ev)
           \<longleftrightarrow> card (\<Union>react \<in> set (reactions_cache (reaction_message ev)).
                       \<Union>users \<in> set_option (users_fetch react).
                         user_id ` {u \<in> set users. \<not> user_bot u})
                 \<ge> length [m \<leftarrow> fetched_members g. \<not> user_bot (member_user m)
                      \<and> (\<forall>role \<in> set (member_roles m).
                            \<not> sublist ''bot'' (toLowerCase (role_name role)))])
       \<and> (DeleteMessage \<in> set (effects (messageReactionAdd s ev))
           \<longleftrightarrow> messageReactionAdd s ev = on_quorum s g (reaction_message ev))"
proof -
  obtain out where out: "collect_reactors (reactions_cache (reaction_message ev)) [] = Some out"
    using collect_reactors_Some [OF assms(4)] by blast
  have differs: "\<lparr>state = s, effects = [], completed = True\<rparr> \<noteq> on_quorum s g (reaction_message ev)"
  proof
    assume "\<lparr>state = s, effects = [], completed = True\<rparr> = on_quorum s g (reaction_message ev)"
    then have "effects (on_quorum s g (reaction_message ev)) = []"
      by (metis outcome.select_convs(2))
    then show False
      using on_quorum_deletes [of s g "reaction_message ev"] by simp
  qed
  show ?thesis
    using assms(1-3) out collect_reactors_size [OF out] on_quorum_deletes [of s g "reaction_message ev"] differs
    by (auto simp: messageReactionAdd_def totalHumans_count)
qed

lemma filter_removes: "\<not> contains (filter (\<lambda>g. appid g \<noteq> i) list) i"
  by (simp add: contains_iff)

lemma removeByCatalogId_lists:
  "singleList (removeByCatalogId i s) = filter (\<lambda>g. appid g \<noteq> i) (singleList s)"
  "multiList (removeByCatalogId i s) = filter (\<lambda>g. appid g \<noteq> i) (multiList s)"
  by (simp_all add: removeByCatalogId_def)

text \<open>
  C5. Take an event that reaches the quorum branch and whose first embed has a URL with
  an identifier. The look-up of the voice channel, the first step of the voice-channel
  branch, is in the log exactly when the multi collection had an entry with that
  identifier when the handler started, before the removal; the log is the write of the
  lists, then that branch if it is entered, then the deletion of the message. In the
  state the handler leaves, neither collection has an entry with the identifier.
\<close>

theorem voice_branch_iff_multi_before_removal:
  assumes "\<not> (reaction_partial ev \<and> \<not> reaction_fetch_resolves ev)"
      and "\<not> user_bot (reacting_user ev)"
      and "msg_guild (reaction_message ev) = Some g"
      and "collect_reactors (reactions_cache (reaction_message ev)) [] = Some uniqueReactors"
      and "totalHumans (fetched_members g) \<le> length uniqueReactors"
      and "appidMatch (reaction_message ev) = Some (emb, digits)"
  shows "((\<exists>wanted. VoiceChannelLookup wanted \<in> set (effects (messageReactionAdd s ev)))
            \<longleftrightarrow> contains (multiList s) (parseInt digits))
       \<and> effects (messageReactionAdd s ev)
           = SaveLists (singleList (state (messageReactionAdd s ev)))
                       (multiList (state (messageReactionAdd s ev)))
             # (if contains (multiList s) (parseInt digits) then voice_channel g emb else [])
             @ [DeleteMessage]
       \<and> \<not> contains (singleList (state (messageReactionAdd s ev))) (parseInt digits)
       \<and> \<not> contains (multiList (state (messageReactionAdd s ev))) (parseInt digits)"
proof -
  have run: "messageReactionAdd s ev = on_quorum s g (reaction_message ev)"
    using assms(1-5) by (auto simp: messageReactionAdd_def)
  have voice: "\<exists>wanted. VoiceChannelLookup wanted \<in> set (voice_channel g emb)"
    by (simp add: voice_channel_def Let_def)
  show ?thesis
    unfolding run using assms(6) voice
    by (auto simp: on_quorum_def Let_def contains_def [symmetric] removeByCatalogId_lists filter_removes)
qed

text \<open>
  C10. When every member is a bot account or has a role whose lower-cased name contains
  \<open>bot\<close>, so that no member counts as human, any reaction-add event of a user that is
  not a bot that the handler works through reaches the quorum branch, whatever the
  reactions on the message are: the deletion of the message is asked for, and when the
  URL of the first embed has an identifier, neither collection has an entry with it
  afterwards.
\<close>

theorem no_humans_one_reaction_completes:
  assumes "\<not> (reaction_partial ev \<and> \<not> reaction_fetch_resolves ev)"
      and "\<not> user_bot (reacting_user ev)"
      and "msg_guild (reaction_message ev) = Some g"
      and "\<forall>react \<in> set (reactions_cache (reaction_message ev)). users_fetch react \<noteq> None"
      and "\<forall>m \<in> set (fetched_members g).
             user_bot (member_user m)
             \<or> (\<exists>role \<in> set (member_roles m). sublist ''bot'' (toLowerCase (role_name role)))"
  shows "DeleteMessage \<in> set (effects (messageReactionAdd s ev))
       \<and> (\<forall>emb digits. appidMatch (reaction_message ev) = Some (emb, digits) \<longrightarrow>
             \<not> contains (singleList (state (messageReactionAdd s ev))) (parseInt digits)
             \<and> \<not> contains (multiList (state (messageReactionAdd s ev))) (parseInt digits))
       \<and> completed (messageReactionAdd s ev)"
proof -
  obtain out where out: "collect_reactors (reactions_cache (reaction_message ev)) [] = Some out"
    using collect_reactors_Some [OF assms(4)] by blast
  have none: "totalHumans (fetched_members g) = 0"
    using assms(5) by (auto simp: totalHumans_count filter_empty_conv)
  have run: "messageReactionAdd s ev = on_quorum s g (reaction_message ev)"
    using assms(1-3) out none by (auto simp: messageReactionAdd_def)
  show ?thesis
    unfolding run
    by (auto simp: on_quorum_def Let_def contains_def [symmetric] removeByCatalogId_lists
                   filter_removes split: option.splits)
qed

lemmas example_defs = portal_event_def ana_def ben_def zed_def wishbot_def crew_members_def crew_guild_def bots_guild_def
  drg_embed_def drg_message_def drg_event_def early_event_def lone_event_def

lemma drg_reactors:
  "collect_reactors (reactions_cache (reaction_message drg_event)) [] = Some [''1001'', ''1002'']"
  by code_simp

lemma early_reactors:
  "collect_reactors (reactions_cache (reaction_message early_event)) [] = Some [''1001'']"
  by code_simp

lemma crew_humans: "totalHumans (fetched_members crew_guild) = 2"
  by code_simp

lemma drg_appid:
  "appidMatch (reaction_message drg_event) = Some (drg_embed, ''548430'')"
  "parseInt ''548430'' = 548430"
  by code_simp+

lemma drg_handled:
  "\<not> (reaction_partial drg_event \<and> \<not> reaction_fetch_resolves drg_event)"
  "\<not> user_bot (reacting_user drg_event)"
  "msg_guild (reaction_message drg_event) = Some crew_guild"
  "\<forall>react \<in> set (reactions_cache (reaction_message drg_event)). users_fetch react \<noteq> None"
  by (simp_all add: example_defs)

lemma early_handled:
  "\<not> (reaction_partial early_event \<and> \<not> reaction_fetch_resolves early_event)"
  "\<not> user_bot (reacting_user early_event)"
  "msg_guild (reaction_message early_event) = Some crew_guild"
  "\<forall>react \<in> set (reactions_cache (reaction_message early_event)). users_fetch react \<noteq> None"
  by (simp_all add: example_defs)

theorem quorum_iff_reactors_cover_humans_witness:
  "card (\<Union>react \<in> set (reactions_cache (reaction_message drg_event)).
           \<Union>users \<in> set_option (users_fetch react). user_id ` {u \<in> set users. \<not> user_bot u}) = 2
   \<and> length [m \<leftarrow> fetched_members crew_guild. \<not> user_bot (member_user m)
               \<and> (\<forall>role \<in> set (member_roles m).
                     \<not> sublist ''bot'' (toLowerCase (role_name role)))] = 2
   \<and> DeleteMessage \<in> set (effects (messageReactionAdd two_list_state drg_event))
   \<and> card (\<Union>react \<in> set (reactions_cache (reaction_message early_event)).
           \<Union>users \<in> set_option (users_fetch react). user_id ` {u \<in> set users. \<not> user_bot u}) = 1
   \<and> DeleteMessage \<notin> set (effects (messageReactionAdd two_list_state early_event))"
proof -
  have "(\<Union>react \<in> set (reactions_cache (reaction_message drg_event)).
           \<Union>users \<in> set_option (users_fetch react). user_id ` {u \<in> set users. \<not> user_bot u})
        = {''1001'', ''1002''}"
    using collect_reactors_set [OF drg_reactors] by auto
  then have two: "card (\<Union>react \<in> set (reactions_cache (reaction_message drg_event)).
           \<Union>users \<in> set_option (users_fetch react). user_id ` {u \<in> set users. \<not> user_bot u}) = 2"
    by simp
  have "(\<Union>react \<in> set (reactions_cache (reaction_message early_event)).
           \<Union>users \<in> set_option (users_fetch react). user_id ` {u \<in> set users. \<not> user_bot u})
        = {''1001''}"
    using collect_reactors_set [OF early_reactors] by auto
  then have one: "card (\<Union>react \<in> set (reactions_cache (reaction_message early_event)).
           \<Union>users \<in> set_option (users_fetch react). user_id ` {u \<in> set users. \<not> user_bot u}) = 1"
    by simp
  have humans: "length [m \<leftarrow> fetched_members crew_guild. \<not> user_bot (member_user m)
               \<and> (\<forall>role \<in> set (member_roles m).
                     \<not> sublist ''bot'' (toLowerCase (role_name role)))] = 2"
    using crew_humans by (simp only: totalHumans_count)
  have enough: "length [m \<leftarrow> fetched_members crew_guild. \<not> user_bot (member_user m)
               \<and> (\<forall>role \<in> set (member_roles m).
                     \<not> sublist ''bot'' (toLowerCase (role_name role)))]
        \<le> card (\<Union>react \<in> set (reactions_cache (reaction_message drg_event)).
           \<Union>users \<in> set_option (users_fetch react). user_id ` {u \<in> set users. \<not> user_bot u})"
    by (simp only: two humans)
  have short: "\<not> length [m \<leftarrow> fetched_members crew_guild. \<not> user_bot (member_user m)
               \<and> (\<forall>role \<in> set (member_roles m).
                     \<not> sublist ''bot'' (toLowerCase (role_name role)))]
        \<le> card (\<Union>react \<in> set (reactions_cache (reaction_message early_event)).
           \<Union>users \<in> set_option (users_fetch react). user_id ` {u \<in> set users. \<not> user_bot u})"
    by (simp only: one humans)
  from quorum_iff_reactors_cover_humans [OF drg_handled, of two_list_state]
       quorum_iff_reactors_cover_humans [OF early_handled, of two_list_state]
       two one humans enough short
  show ?thesis by blast
qed

lemma portal_event_handled:
  "\<not> (reaction_partial portal_event \<and> \<not> reaction_fetch_resolves portal_event)"
  "\<not> user_bot (reacting_user portal_event)"
  "msg_guild (reaction_message portal_event) = Some crew_guild"
  by (simp_all add: example_defs)

lemma portal_event_reactors:
  "collect_reactors (reactions_cache (reaction_message portal_event)) [] = Some [''1001'', ''1002'']"
  by code_simp

lemma portal_event_appid:
  "appidMatch (reaction_message portal_event)
     = Some (\<lparr>re_url = Some ''https://store.steampowered.com/app/620'', re_title = Some ''Portal 2''\<rparr>,
             ''620'')"
  "parseInt ''620'' = 620"
  by code_simp+

theorem voice_branch_iff_multi_before_removal_witness:
  "contains (multiList two_list_state) 548430
   \<and> (\<exists>wanted. VoiceChannelLookup wanted \<in> set (effects (messageReactionAdd two_list_state drg_event)))
   \<and> \<not> contains (singleList (state (messageReactionAdd two_list_state drg_event))) 548430
   \<and> \<not> contains (multiList (state (messageReactionAdd two_list_state drg_event))) 548430
   \<and> contains (singleList single_only_state) 620
   \<and> \<not> contains (multiList single_only_state) 620
   \<and> \<not> (\<exists>wanted. VoiceChannelLookup wanted
                  \<in> set (effects (messageReactionAdd single_only_state portal_event)))
   \<and> \<not> contains (singleList (state (messageReactionAdd single_only_state portal_event))) 620"
proof -
  have enough: "totalHumans (fetched_members crew_guild) \<le> length [''1001'', ''1002'']"
    by (simp add: crew_humans)
  have lists: "contains (multiList two_list_state) 548430" "contains (singleList single_only_state) 620"
    "\<not> contains (multiList single_only_state) 620"
    by (simp_all add: contains_def two_list_state_def single_only_state_def)
  from voice_branch_iff_multi_before_removal
         [OF drg_handled(1-3) drg_reactors enough drg_appid(1), of two_list_state,
          unfolded drg_appid(2)]
       voice_branch_iff_multi_before_removal
         [OF portal_event_handled portal_event_reactors enough portal_event_appid(1),
          of single_only_state, unfolded portal_event_appid(2)]
       lists
  show ?thesis by blast
qed

theorem no_humans_one_reaction_completes_witness:
  "totalHumans (fetched_members bots_guild) = 0
   \<and> contains (multiList two_list_state) 548430
   \<and> DeleteMessage \<in> set (effects (messageReactionAdd two_list_state lone_event))
   \<and> \<not> contains (singleList (state (messageReactionAdd two_list_state lone_event))) 548430
   \<and> \<not> contains (multiList (state (messageReactionAdd two_list_state lone_event))) 548430"
proof -
  have handled:
    "\<not> (reaction_partial lone_event \<and> \<not> reaction_fetch_resolves lone_event)"
    "\<not> user_bot (reacting_user lone_event)"
    "msg_guild (reaction_message lone_event) = Some bots_guild"
    "\<forall>react \<in> set (reactions_cache (reaction_message lone_event)). users_fetch react \<noteq> None"
    by (simp_all add: example_defs)
  have "\<forall>m \<in> set (fetched_members bots_guild).
          user_bot (member_user m)
          \<or> (\<exists>role \<in> set (member_roles m). str_includes (toLowerCase (role_name role)) ''bot'')"
    by code_simp
  then have bots: "\<forall>m \<in> set (fetched_members bots_guild).
       user_bot (member_user m)
       \<or> (\<exists>role \<in> set (member_roles m). sublist ''bot'' (toLowerCase (role_name role)))"
    by (simp only: str_includes_sublist)
  have appid: "appidMatch (reaction_message lone_event) = Some (drg_embed, ''548430'')"
    by code_simp
  have present: "contains (multiList two_list_state) 548430"
    by (simp add: contains_def two_list_state_def)
  from no_humans_one_reaction_completes [OF handled bots, of two_list_state] appid
  have "\<not> contains (singleList (state (messageReactionAdd two_list_state lone_event))) (parseInt ''548430'')
        \<and> \<not> contains (multiList (state (messageReactionAdd two_list_state lone_event))) (parseInt ''548430'')"
    by blast
  moreover have "totalHumans (fetched_members bots_guild) = 0"
    by code_simp
  ultimately show ?thesis
    using no_humans_one_reaction_completes [OF handled bots, of two_list_state] present
    unfolding drg_appid(2) by blast
qed

text \<open>
  What the voice-channel branch compares: the creation is asked for exactly when no voice
  channel has a name equal to the lower-cased derived name. The name of the channel is
  taken as it is, so a channel whose name has an upper-case letter is never found.
\<close>

lemma voice_channel_creates_iff:
  "(\<exists>n. CreateVoiceChannel n \<in> set (voice_channel g emb)) \<longleftrightarrow>
     \<not> (\<exists>c \<in> set (channels_cache g).
           ch_type c = GuildVoice \<and> Some (ch_name c) = map_option toLowerCase (capitalizedName emb))"
  by (auto simp: voice_channel_def Let_def find_None_iff)

lemma capitalizedName_length: "capitalizedName emb = Some n \<Longrightarrow> length n \<le> 90"
  by (auto simp: capitalizedName_def)

lemma voice_channel_lower_case_found:
  "voice_channel \<lparr>members_fetch = None, members_cache = [],
                   channels_cache = [\<lparr>ch_type = GuildVoice, ch_name = ''deep rock galactic''\<rparr>]\<rparr>
                 drg_embed
     = [VoiceChannelLookup (Some ''deep rock galactic'')]"
  by code_simp

text \<open>
  C9. The scenario of the specification: the title is \<open>deep rock galactic\<close>, the entry is
  in the multi collection, and the guild already has a voice channel named
  \<open>Deep Rock Galactic\<close>. The derived name is \<open>Deep Rock Galactic\<close>, the same as the
  name of that channel, and the handler still asks for a new channel of that name: it
  looks for a channel named \<open>deep rock galactic\<close>.
\<close>

theorem existing_voice_channel_not_found:
  "\<lparr>ch_type = GuildVoice, ch_name = ''Deep Rock Galactic''\<rparr> \<in> set (channels_cache crew_guild)
   \<and> capitalizedName drg_embed = Some ''Deep Rock Galactic''
   \<and> effects (messageReactionAdd two_list_state drg_event)
       = [SaveLists [\<lparr>name = ''Hades'', appid = 1145360, suggester = ''ana''\<rparr>,
                     \<lparr>name = ''Portal 2'', appid = 620, suggester = ''ben''\<rparr>,
                     \<lparr>name = ''Celeste'', appid = 504230, suggester = ''ana''\<rparr>]
                    [\<lparr>name = ''Portal 2'', appid = 620, suggester = ''cy''\<rparr>],
          VoiceChannelLookup (Some ''deep rock galactic''),
          CreateVoiceChannel ''Deep Rock Galactic'',
          DeleteMessage]"
  by code_simp

end
